theory Spec2Isabelle
  imports Main "HOL-Library.Sublist"
begin

section \<open>The simulation launcher \<^verbatim>\<open>nuplan/planning/script/run_ml.py\<close>\<close>

subsection \<open>Values, errors and the configuration object\<close>

text \<open>
  A configuration value: \<^verbatim>\<open>None\<close>, a string, an integer, or a nested node that this
  file never looks into.
\<close>

datatype val = VNone | VStr string | VInt int | VNode nat

text \<open>
  The exceptions that the launcher or the library calls it makes can raise.
  \<open>External n\<close> is any exception raised inside a collaborator.
\<close>

datatype error =
    AssertionError string
  | ConfigAttributeError string
  | ConfigTypeError string
  | ConfigKeyError string
  | TypeError
  | FileNotFoundError string
  | NotADirectoryError string
  | External nat

text \<open>
  \<^verbatim>\<open>DictConfig\<close>: an ordered mapping with a struct flag. In struct mode the mapping
  refuses \<^verbatim>\<open>pop\<close>, which is why the launcher clears the flag around it.
\<close>

record cfg =
  items :: "(string \<times> val) list"
  struct :: bool

definition cfg_keys :: "cfg \<Rightarrow> string list" where
  "cfg_keys c = map fst (items c)"

definition cfg_getattr :: "string \<Rightarrow> cfg \<Rightarrow> error + val" where
  "cfg_getattr k c =
     (case map_of (items c) k of
        None \<Rightarrow> Inl (ConfigAttributeError k)
      | Some v \<Rightarrow> Inr v)"

definition set_struct :: "bool \<Rightarrow> cfg \<Rightarrow> cfg" where
  "set_struct b c = c\<lparr>struct := b\<rparr>"

definition cfg_pop :: "string \<Rightarrow> cfg \<Rightarrow> error + cfg" where
  "cfg_pop k c =
     (if struct c then Inl (ConfigTypeError k)
      else if k \<notin> set (cfg_keys c) then Inl (ConfigKeyError k)
      else Inr (c\<lparr>items := filter (\<lambda>kv. fst kv \<noteq> k) (items c)\<rparr>))"

subsection \<open>Opaque objects of the simulation framework\<close>

datatype planner = Planner nat
datatype worker = Worker nat
datatype callbacks = Callbacks nat
datatype runners = Runners nat
datatype profiler = Profiler nat

record common_builder =
  output_dir :: string
  worker :: worker
  profiler :: "profiler option"

text \<open>
  The \<^verbatim>\<open>planners\<close> argument,
  \<^verbatim>\<open>Optional[Union[AbstractPlanner, List[AbstractPlanner]]]\<close>.
\<close>

datatype planners_arg = NoPlanners | SinglePlanner planner | PlannerList "planner list"

text \<open>Python truthiness: \<^verbatim>\<open>None\<close> and the empty list are false, an object is true.\<close>

fun truthy :: "planners_arg \<Rightarrow> bool" where
  "truthy NoPlanners = False"
| "truthy (SinglePlanner p) = True"
| "truthy (PlannerList ps) = (ps \<noteq> [])"

text \<open>\<^verbatim>\<open>if isinstance(planners, AbstractPlanner): planners = [planners]\<close>\<close>

fun wrap_single :: "planners_arg \<Rightarrow> planners_arg" where
  "wrap_single (SinglePlanner p) = PlannerList [p]"
| "wrap_single ps = ps"

subsection \<open>Observable events and the collaborators\<close>

text \<open>
  Every call that leaves this file, and every change it makes to the configuration, is
  recorded with its arguments, in the order in which it happens.
\<close>

datatype event =
    SeedEverything val
  | SetUpCommonBuilder cfg string
  | BuildCallbacksWorker cfg
  | BuildSimulationCallbacks cfg string worker
  | LoggerInfo string
  | SetStruct bool
  | Pop string
  | BuildSimulations cfg callbacks worker planners_arg worker
  | SaveProfiler profiler string
  | RunRunners runners common_builder cfg string
  | Getcwd
  | Rmtree string

text \<open>
  A \<^verbatim>\<open>pathlib.Path\<close> object (POSIX), identified by the string \<^verbatim>\<open>str\<close> gives for it.
\<close>

datatype path = PosixPath string

text \<open>
  The functions imported from the framework are not part of this file; they are
  parameters. Each returns its result or raises. \<open>is_s3_path\<close> receives the path object
  \<^verbatim>\<open>Path(cfg.output_dir)\<close>.
\<close>

record collaborators =
  seed_everything :: "val \<Rightarrow> error + unit"
  set_up_common_builder :: "cfg \<Rightarrow> string \<Rightarrow> error + common_builder"
  build_callbacks_worker :: "cfg \<Rightarrow> error + worker"
  build_simulation_callbacks :: "cfg \<Rightarrow> string \<Rightarrow> worker \<Rightarrow> error + callbacks"
  build_simulations ::
    "cfg \<Rightarrow> callbacks \<Rightarrow> worker \<Rightarrow> planners_arg \<Rightarrow> worker \<Rightarrow> error + runners"
  save_profiler :: "profiler \<Rightarrow> string \<Rightarrow> error + unit"
  run_runners :: "runners \<Rightarrow> common_builder \<Rightarrow> cfg \<Rightarrow> string \<Rightarrow> error + unit"
  is_s3_path :: "path \<Rightarrow> bool"

subsection \<open>Program state and sequencing\<close>

text \<open>
  The state a run can change: the configuration object (shared with the caller), the
  files and directories that exist, each under its absolute path, and the event log. The
  working directory is read only.
\<close>

datatype kind = File | Dir

record state =
  conf :: cfg
  cwd :: string
  fs :: "(string \<times> kind) list"
  trace :: "event list"

type_synonym 'a prog = "state \<Rightarrow> (error + 'a) \<times> state"

definition ret :: "'a \<Rightarrow> 'a prog" where
  "ret a s = (Inr a, s)"

definition raise :: "error \<Rightarrow> 'a prog" where
  "raise e s = (Inl e, s)"

definition bnd :: "'a prog \<Rightarrow> ('a \<Rightarrow> 'b prog) \<Rightarrow> 'b prog" where
  "bnd m f s = (case m s of (Inl e, s') \<Rightarrow> (Inl e, s') | (Inr a, s') \<Rightarrow> f a s')"

definition emit :: "event \<Rightarrow> unit prog" where
  "emit ev s = (Inr (), s\<lparr>trace := trace s @ [ev]\<rparr>)"

text \<open>A call out of this file: logged when made, then it returns or raises.\<close>

definition call :: "event \<Rightarrow> error + 'a \<Rightarrow> 'a prog" where
  "call ev r s = (r, s\<lparr>trace := trace s @ [ev]\<rparr>)"

definition get_conf :: "cfg prog" where
  "get_conf s = (Inr (conf s), s)"

definition read_conf :: "(cfg \<Rightarrow> error + 'a) \<Rightarrow> 'a prog" where
  "read_conf f s = (f (conf s), s)"

definition omegaconf_set_struct :: "bool \<Rightarrow> unit prog" where
  "omegaconf_set_struct b s =
     (Inr (), s\<lparr>conf := set_struct b (conf s), trace := trace s @ [SetStruct b]\<rparr>)"

definition pop_conf :: "string \<Rightarrow> unit prog" where
  "pop_conf k s =
     (case cfg_pop k (conf s) of
        Inl e \<Rightarrow> (Inl e, s\<lparr>trace := trace s @ [Pop k]\<rparr>)
      | Inr c \<Rightarrow> (Inr (), s\<lparr>conf := c, trace := trace s @ [Pop k]\<rparr>))"

subsection \<open>Strings and paths\<close>

text \<open>\<^verbatim>\<open>str.find\<close>: the lowest index at which the substring starts, or \<open>-1\<close>.\<close>

fun py_find :: "string \<Rightarrow> string \<Rightarrow> int" where
  "py_find [] sub = (if sub = [] then 0 else - 1)"
| "py_find (c # cs) sub =
     (if prefix sub (c # cs) then 0
      else (let r = py_find cs sub in if r = - 1 then - 1 else r + 1))"

text \<open>The slice \<^verbatim>\<open>s[:n]\<close>; a negative bound counts from the end.\<close>

definition py_slice_to :: "string \<Rightarrow> int \<Rightarrow> string" where
  "py_slice_to s n =
     (if n < 0 then take (nat (int (length s) + n)) s else take (nat n) s)"

text \<open>\<^verbatim>\<open>os.path.join\<close> with two arguments, and \<^verbatim>\<open>os.path.basename\<close> (POSIX).\<close>

definition path_join :: "string \<Rightarrow> string \<Rightarrow> string" where
  "path_join a b =
     (if prefix ''/'' b then b
      else if a = [] \<or> suffix ''/'' a then a @ b
      else a @ ''/'' @ b)"

definition basename :: "string \<Rightarrow> string" where
  "basename p = rev (takeWhile (\<lambda>c. c \<noteq> CHR ''/'') (rev p))"

text \<open>
  \<^verbatim>\<open>Path(s)\<close>: the string is cut at the slashes, empty components and \<^verbatim>\<open>.\<close> are
  dropped, and the rest is joined again with single slashes behind the root. The root is
  \<^verbatim>\<open>//\<close> for exactly two leading slashes, \<^verbatim>\<open>/\<close> for any other number of them, and
  empty for a relative path; the empty path is written \<^verbatim>\<open>.\<close>.
\<close>

fun split_sep :: "string \<Rightarrow> string list" where
  "split_sep [] = [[]]"
| "split_sep (c # cs) =
     (if c = CHR ''/'' then [] # split_sep cs
      else (case split_sep cs of [] \<Rightarrow> [[c]] | x # xs \<Rightarrow> (c # x) # xs))"

fun join_sep :: "string list \<Rightarrow> string" where
  "join_sep [] = []"
| "join_sep [x] = x"
| "join_sep (x # y # ys) = x @ ''/'' @ join_sep (y # ys)"

definition path_root :: "string \<Rightarrow> string" where
  "path_root s =
     (if prefix ''//'' s \<and> \<not> prefix ''///'' s then ''//''
      else if prefix ''/'' s then ''/''
      else [])"

definition Path :: "string \<Rightarrow> path" where
  "Path s =
     (let parts = filter (\<lambda>x. x \<noteq> [] \<and> x \<noteq> ''.'') (split_sep s);
          r = path_root s @ join_sep parts
      in PosixPath (if r = [] then ''.'' else r))"

text \<open>
  \<^verbatim>\<open>shutil.rmtree\<close>: a path that does not exist raises \<^verbatim>\<open>FileNotFoundError\<close>, a
  regular file raises \<^verbatim>\<open>NotADirectoryError\<close>, and in both cases nothing is removed; a
  directory is removed with everything beneath it.
\<close>

definition beneath :: "string \<Rightarrow> string \<Rightarrow> bool" where
  "beneath p q = (q = p \<or> prefix (p @ ''/'') q)"

definition rmtree :: "string \<Rightarrow> (string \<times> kind) list \<Rightarrow> error + (string \<times> kind) list" where
  "rmtree p files =
     (case map_of files p of
        None \<Rightarrow> Inl (FileNotFoundError p)
      | Some File \<Rightarrow> Inl (NotADirectoryError p)
      | Some Dir \<Rightarrow> Inr (filter (\<lambda>e. \<not> beneath p (fst e)) files))"

definition rmtree_call :: "string \<Rightarrow> unit prog" where
  "rmtree_call p s =
     (case rmtree p (fs s) of
        Inl e \<Rightarrow> (Inl e, s\<lparr>trace := trace s @ [Rmtree p]\<rparr>)
      | Inr files \<Rightarrow> (Inr (), s\<lparr>fs := files, trace := trace s @ [Rmtree p]\<rparr>))"

definition os_getcwd :: "string prog" where
  "os_getcwd s = (Inr (cwd s), s\<lparr>trace := trace s @ [Getcwd]\<rparr>)"

subsection \<open>Module level: the configuration path\<close>

definition os_getenv :: "(string \<rightharpoonup> string) \<Rightarrow> string \<Rightarrow> string \<Rightarrow> string" where
  "os_getenv environ key dflt = (case environ key of None \<Rightarrow> dflt | Some v \<Rightarrow> v)"

definition CONFIG_PATH :: "(string \<rightharpoonup> string) \<Rightarrow> string" where
  "CONFIG_PATH environ =
     (let p0 = os_getenv environ ''NUPLAN_HYDRA_CONFIG_PATH'' ''config/simulation'';
          p1 = (if environ ''NUPLAN_HYDRA_CONFIG_PATH'' \<noteq> None
                then path_join ''../../../../'' p0 else p0)
      in if basename p1 \<noteq> ''simulation'' then path_join p1 ''simulation'' else p1)"

definition CONFIG_NAME :: string where
  "CONFIG_NAME = ''default_simulation''"

subsection \<open>\<^verbatim>\<open>run_simulation\<close>, \<^verbatim>\<open>clean_up_s3_artifacts\<close> and \<^verbatim>\<open>main\<close>\<close>

definition merge_planner :: "planners_arg \<Rightarrow> unit prog" where
  "merge_planner planners =
     bnd get_conf (\<lambda>c.
       if truthy planners \<and> ''planner'' \<in> set (cfg_keys c) then
         bnd (emit (LoggerInfo ''Using pre-instantiated planner. Ignoring planner in config''))
           (\<lambda>_. bnd (omegaconf_set_struct False)
           (\<lambda>_. bnd (pop_conf ''planner'')
           (\<lambda>_. omegaconf_set_struct True)))
       else ret ())"

definition run_simulation :: "collaborators \<Rightarrow> planners_arg \<Rightarrow> unit prog" where
  "run_simulation k planners =
     bnd (read_conf (cfg_getattr ''seed'')) (\<lambda>seed.
     bnd (call (SeedEverything seed) (seed_everything k seed)) (\<lambda>_.
     let profiler_name = ''building_simulation'' in
     bnd get_conf (\<lambda>c0.
     bnd (call (SetUpCommonBuilder c0 profiler_name)
            (set_up_common_builder k c0 profiler_name)) (\<lambda>cb.
     bnd (call (BuildCallbacksWorker c0) (build_callbacks_worker k c0)) (\<lambda>cw.
     bnd (call (BuildSimulationCallbacks c0 (output_dir cb) cw)
            (build_simulation_callbacks k c0 (output_dir cb) cw)) (\<lambda>cbs.
     bnd (merge_planner planners) (\<lambda>_.
     let planners' = wrap_single planners in
     bnd get_conf (\<lambda>c1.
     bnd (call (BuildSimulations c1 cbs (worker cb) planners' cw)
            (build_simulations k c1 cbs (worker cb) planners' cw)) (\<lambda>rs.
     bnd (case profiler cb of
            None \<Rightarrow> ret ()
          | Some p \<Rightarrow> call (SaveProfiler p profiler_name) (save_profiler k p profiler_name))
       (\<lambda>_.
     bnd (emit (LoggerInfo ''Running simulation...'')) (\<lambda>_.
     bnd (call (RunRunners rs cb c1 ''running_simulation'')
            (run_runners k rs cb c1 ''running_simulation'')) (\<lambda>_.
     emit (LoggerInfo ''Finished running simulation!'')))))))))))))"

definition clean_up_s3_artifacts :: "unit prog" where
  "clean_up_s3_artifacts =
     bnd os_getcwd (\<lambda>working_path.
     let s3_dirname = ''s3:'';
         s3_ind = py_find working_path s3_dirname
     in if s3_ind \<noteq> - 1 then
          (let local_s3_path =
                 py_slice_to working_path
                   (py_find working_path s3_dirname + int (length s3_dirname))
           in rmtree_call local_s3_path)
        else ret ())"

definition main :: "collaborators \<Rightarrow> unit prog" where
  "main k =
     bnd (read_conf (cfg_getattr ''simulation_log_main_path'')) (\<lambda>v.
     if v \<noteq> VNone then
       raise (AssertionError
         ''Simulation_log_main_path must not be set when running simulation.'')
     else
       bnd (run_simulation k NoPlanners) (\<lambda>_.
       bnd (read_conf (cfg_getattr ''output_dir'')) (\<lambda>od.
       case od of
         VStr p \<Rightarrow> if is_s3_path k (Path p) then clean_up_s3_artifacts else ret ()
       | _ \<Rightarrow> raise TypeError)))"

subsection \<open>Remote-storage detection\<close>

text \<open>
  Modelled from the spec: \<^verbatim>\<open>is_s3_path\<close> of \<^verbatim>\<open>nuplan.common.utils.s3_utils\<close>, which
  this file imports and which is not among the sources. The specification describes it as
  a scheme-prefix check on the path string: the path begins with \<^verbatim>\<open>s3://\<close>.
\<close>

fun is_s3_path_spec :: "path \<Rightarrow> bool" where
  "is_s3_path_spec (PosixPath p) = prefix ''s3://'' p"

subsection \<open>The events of one call\<close>

text \<open>What a program appends to the event log when it is run from a given state.\<close>

definition events :: "'a prog \<Rightarrow> state \<Rightarrow> event list" where
  "events m s = drop (length (trace s)) (trace (snd (m s)))"

fun is_cfg_mutation :: "event \<Rightarrow> bool" where
  "is_cfg_mutation (SetStruct b) = True"
| "is_cfg_mutation (Pop k) = True"
| "is_cfg_mutation e = False"

text \<open>
  The construction calls (context, callback worker, callbacks, runners) and the
  execution call.
\<close>

fun is_construction :: "event \<Rightarrow> bool" where
  "is_construction (SetUpCommonBuilder c n) = True"
| "is_construction (BuildCallbacksWorker c) = True"
| "is_construction (BuildSimulationCallbacks c d w) = True"
| "is_construction (BuildSimulations c cbs w ps cw) = True"
| "is_construction e = False"

fun is_execution :: "event \<Rightarrow> bool" where
  "is_execution (RunRunners rs cb c n) = True"
| "is_execution e = False"

fun is_build :: "event \<Rightarrow> bool" where
  "is_build (BuildSimulations c cbs w ps cw) = True"
| "is_build e = False"

fun is_save :: "event \<Rightarrow> bool" where
  "is_save (SaveProfiler p n) = True"
| "is_save e = False"

text \<open>The event carries the given profiling session name.\<close>

fun names_session :: "string \<Rightarrow> event \<Rightarrow> bool" where
  "names_session n (SetUpCommonBuilder c n') = (n' = n)"
| "names_session n (SaveProfiler p n') = (n' = n)"
| "names_session n (RunRunners rs cb c n') = (n' = n)"
| "names_session n e = False"

subsection \<open>A concrete run, for evaluating the theorems\<close>

definition example_builder :: common_builder where
  "example_builder =
     \<lparr>output_dir = ''/out'', worker = Worker 0, profiler = Some (Profiler 0)\<rparr>"

definition example_collab :: collaborators where
  "example_collab =
     \<lparr>seed_everything = (\<lambda>sd. Inr ()),
      set_up_common_builder = (\<lambda>c n. Inr example_builder),
      build_callbacks_worker = (\<lambda>c. Inr (Worker 1)),
      build_simulation_callbacks = (\<lambda>c d w. Inr (Callbacks 0)),
      build_simulations = (\<lambda>c cbs w ps cw. Inr (Runners 0)),
      save_profiler = (\<lambda>p n. Inr ()),
      run_runners = (\<lambda>rs cb c n. Inr ()),
      is_s3_path = is_s3_path_spec\<rparr>"

definition example_cfg :: "string \<Rightarrow> val \<Rightarrow> cfg" where
  "example_cfg out_dir log_path =
     \<lparr>items = [(''seed'', VInt 0), (''simulation_log_main_path'', log_path),
               (''output_dir'', VStr out_dir), (''planner'', VNode 0)],
      struct = True\<rparr>"

definition example_state :: "string \<Rightarrow> val \<Rightarrow> string \<Rightarrow> state" where
  "example_state out_dir log_path wd =
     \<lparr>conf = example_cfg out_dir log_path, cwd = wd,
      fs = [(''/tmp'', Dir), (''/tmp/run123'', Dir), (''/tmp/run123/s3:'', Dir),
            (''/tmp/run123/s3:/exp1'', Dir), (''/tmp/run123/s3:/exp1/job1'', Dir),
            (''/tmp/run123/s3:x'', Dir), (''/tmp/run123/local'', Dir),
            (''/tmp/run123/local/exp1'', Dir)],
      trace = []\<rparr>"

text \<open>
  A file system in which \<^verbatim>\<open>s3:\<close> occurs only inside the directory name \<^verbatim>\<open>s3:x\<close>
  and below it: there is no directory \<^verbatim>\<open>/tmp/run123/s3:\<close>.
\<close>

definition example_state_s3x :: "string \<Rightarrow> state" where
  "example_state_s3x wd =
     \<lparr>conf = example_cfg ''s3://bucket/exp1'' VNone, cwd = wd,
      fs = [(''/tmp'', Dir), (''/tmp/run123'', Dir), (''/tmp/run123/s3:x'', Dir),
            (''/tmp/run123/s3:x/job1'', Dir), (''/tmp/run123/s3:x/s3:'', Dir),
            (''/tmp/run123/s3:x/s3:/exp1'', Dir)],
      trace = []\<rparr>"

section \<open>Properties\<close>

subsection \<open>Finding a substring\<close>

lemma py_find_ge: "- 1 \<le> py_find s sub"
  by (induction s) (auto simp: Let_def)

lemma py_find_absent: "py_find s sub = - 1 \<Longrightarrow> s \<noteq> a @ sub @ b"
proof (induction s arbitrary: a)
  case Nil
  then show ?case by (auto split: if_splits)
next
  case (Cons c cs)
  from Cons.prems have np: "\<not> prefix sub (c # cs)" by (auto split: if_splits)
  from Cons.prems np py_find_ge [of cs sub] have r: "py_find cs sub = - 1"
    by (auto simp: Let_def split: if_splits)
  show ?case
  proof
    assume eq: "c # cs = a @ sub @ b"
    show False
    proof (cases a)
      case Nil
      with eq np show False by (auto simp: prefix_def)
    next
      case (Cons x a')
      with eq have "cs = a' @ sub @ b" by simp
      with Cons.IH [OF r] show False by blast
    qed
  qed
qed

lemma py_find_first:
  "py_find s sub \<noteq> - 1 \<Longrightarrow>
   \<exists>a b. s = a @ sub @ b \<and> py_find s sub = int (length a) \<and>
         (\<forall>a' b'. s = a' @ sub @ b' \<longrightarrow> length a \<le> length a')"
proof (induction s)
  case Nil
  then have "sub = []" by (auto split: if_splits)
  then show ?case by simp
next
  case (Cons c cs)
  show ?case
  proof (cases "prefix sub (c # cs)")
    case True
    then obtain b where b: "c # cs = sub @ b" by (auto simp: prefix_def)
    have z: "py_find (c # cs) sub = 0" using True by simp
    have "c # cs = [] @ sub @ b \<and> py_find (c # cs) sub = int (length ([] :: string)) \<and>
          (\<forall>a' b'. c # cs = a' @ sub @ b' \<longrightarrow> length ([] :: string) \<le> length a')"
      using b z by simp
    then show ?thesis by blast
  next
    case False
    with Cons.prems have r: "py_find cs sub \<noteq> - 1"
      by (auto simp: Let_def split: if_splits)
    from Cons.IH [OF r] obtain a b where
      ab: "cs = a @ sub @ b" "py_find cs sub = int (length a)"
          "\<forall>a' b'. cs = a' @ sub @ b' \<longrightarrow> length a \<le> length a'" by blast
    have "\<forall>a' b'. c # cs = a' @ sub @ b' \<longrightarrow> length (c # a) \<le> length a'"
    proof (intro allI impI)
      fix a' b' assume eq: "c # cs = a' @ sub @ b'"
      show "length (c # a) \<le> length a'"
      proof (cases a')
        case Nil
        with eq False show ?thesis by (auto simp: prefix_def)
      next
        case (Cons x a'')
        with eq have "cs = a'' @ sub @ b'" by simp
        with ab(3) have "length a \<le> length a''" by blast
        with Cons show ?thesis by simp
      qed
    qed
    moreover have "c # cs = (c # a) @ sub @ b" using ab(1) by simp
    moreover have "py_find (c # cs) sub = int (length (c # a))"
      using False r ab(2) by (simp add: Let_def)
    ultimately show ?thesis by blast
  qed
qed

subsection \<open>The configuration path\<close>

lemma basename_after_slash:
  "CHR ''/'' \<notin> set y \<Longrightarrow> basename (x @ ''/'' @ y) = y"
proof -
  assume y: "CHR ''/'' \<notin> set y"
  have tw: "takeWhile (\<lambda>c. c \<noteq> CHR ''/'') (rev y) = rev y"
    by (rule takeWhile_eq_all_conv [THEN iffD2]) (use y in auto)
  have "basename (x @ ''/'' @ y) = rev (takeWhile (\<lambda>c. c \<noteq> CHR ''/'') (rev y))"
    by (simp add: basename_def takeWhile_tail)
  also have "\<dots> = rev (rev y)" by (simp only: tw)
  finally show ?thesis by simp
qed

lemma basename_join_simulation: "basename (path_join p ''simulation'') = ''simulation''"
proof (cases "p = [] \<or> suffix ''/'' p")
  case True
  then show ?thesis
  proof
    assume "p = []" then show ?thesis by (simp add: path_join_def basename_def)
  next
    assume "suffix ''/'' p"
    then obtain x where "p = x @ ''/''" by (auto simp: suffix_def)
    then show ?thesis
      using basename_after_slash [of "''simulation''" x] by (simp add: path_join_def)
  qed
next
  case False
  then show ?thesis
    using basename_after_slash [of "''simulation''" p] by (simp add: path_join_def)
qed

text \<open>
  Claim C6. The configuration path computed when the module is loaded: without the
  environment override it is the default \<^verbatim>\<open>config/simulation\<close>, unchanged; with the
  override \<open>v\<close> it is \<^verbatim>\<open>../../../../\<close> joined with \<open>v\<close>, and a \<^verbatim>\<open>simulation\<close>
  segment is appended exactly when the final component of that path is not
  \<^verbatim>\<open>simulation\<close>. In every case the final component of the result is
  \<^verbatim>\<open>simulation\<close>, and the configuration name is \<^verbatim>\<open>default_simulation\<close>.
\<close>

theorem CONFIG_PATH_resolution:
  "(environ ''NUPLAN_HYDRA_CONFIG_PATH'' = None \<longrightarrow> CONFIG_PATH environ = ''config/simulation'')
   \<and> (\<forall>v. environ ''NUPLAN_HYDRA_CONFIG_PATH'' = Some v \<longrightarrow>
        (basename (path_join ''../../../../'' v) = ''simulation'' \<longrightarrow>
           CONFIG_PATH environ = path_join ''../../../../'' v)
      \<and> (basename (path_join ''../../../../'' v) \<noteq> ''simulation'' \<longrightarrow>
           CONFIG_PATH environ = path_join (path_join ''../../../../'' v) ''simulation'')
      \<and> (\<not> prefix ''/'' v \<longrightarrow> path_join ''../../../../'' v = ''../../../../'' @ v))
   \<and> basename (CONFIG_PATH environ) = ''simulation''
   \<and> CONFIG_NAME = ''default_simulation''"
proof -
  have none: "environ ''NUPLAN_HYDRA_CONFIG_PATH'' = None \<Longrightarrow>
      CONFIG_PATH environ = ''config/simulation''"
    by (simp add: CONFIG_PATH_def os_getenv_def basename_def)
  have some: "environ ''NUPLAN_HYDRA_CONFIG_PATH'' = Some v \<Longrightarrow>
      CONFIG_PATH environ =
        (if basename (path_join ''../../../../'' v) \<noteq> ''simulation''
         then path_join (path_join ''../../../../'' v) ''simulation''
         else path_join ''../../../../'' v)" for v
    by (simp add: CONFIG_PATH_def os_getenv_def Let_def)
  have rel: "\<not> prefix ''/'' v \<Longrightarrow> path_join ''../../../../'' v = ''../../../../'' @ v" for v
    by (simp add: path_join_def suffix_def)
  have base: "basename (CONFIG_PATH environ) = ''simulation''"
  proof (cases "environ ''NUPLAN_HYDRA_CONFIG_PATH''")
    case None
    then show ?thesis using none by (simp add: basename_def)
  next
    case (Some v)
    then show ?thesis using some [OF Some] basename_join_simulation by (simp split: if_splits)
  qed
  show ?thesis using none some rel base by (simp add: CONFIG_NAME_def)
qed

theorem CONFIG_PATH_resolution_witness:
  "CONFIG_PATH (Map.empty(''NUPLAN_HYDRA_CONFIG_PATH'' \<mapsto> ''custom/config/path''))
     = ''../../../../custom/config/path/simulation''
   \<and> CONFIG_PATH (Map.empty(''NUPLAN_HYDRA_CONFIG_PATH'' \<mapsto> ''custom/simulation''))
     = ''../../../../custom/simulation''
   \<and> CONFIG_PATH Map.empty = ''config/simulation''"
proof -
  let ?e1 = "Map.empty(''NUPLAN_HYDRA_CONFIG_PATH'' \<mapsto> ''custom/config/path'')"
  let ?e2 = "Map.empty(''NUPLAN_HYDRA_CONFIG_PATH'' \<mapsto> ''custom/simulation'')"
  have a: "CONFIG_PATH ?e1 = ''../../../../custom/config/path/simulation''"
    using CONFIG_PATH_resolution [of ?e1]
    by (simp add: path_join_def basename_def suffix_def)
  have b: "CONFIG_PATH ?e2 = ''../../../../custom/simulation''"
    using CONFIG_PATH_resolution [of ?e2]
    by (simp add: path_join_def basename_def suffix_def)
  have c: "CONFIG_PATH Map.empty = ''config/simulation''"
    using CONFIG_PATH_resolution [of Map.empty] by simp
  show ?thesis using a b c by simp
qed

subsection \<open>The artifact cleaner\<close>

lemma clean_up_absent:
  "py_find (cwd s) ''s3:'' = - 1 \<Longrightarrow>
   clean_up_s3_artifacts s = (Inr (), s\<lparr>trace := trace s @ [Getcwd]\<rparr>)"
  by (simp add: clean_up_s3_artifacts_def bnd_def os_getcwd_def ret_def Let_def)

lemma clean_up_present:
  assumes "cwd s = a @ ''s3:'' @ b" "py_find (cwd s) ''s3:'' = int (length a)"
  shows "clean_up_s3_artifacts s =
         rmtree_call (a @ ''s3:'') (s\<lparr>trace := trace s @ [Getcwd]\<rparr>)"
proof -
  have "py_slice_to (cwd s) (int (length a) + 3) = a @ ''s3:''"
    using assms(1) by (simp add: py_slice_to_def nat_add_distrib)
  then show ?thesis using assms(2)
    by (simp add: clean_up_s3_artifacts_def bnd_def os_getcwd_def Let_def)
qed

lemma rmtree_call_eq:
  "rmtree_call p s =
     (case map_of (fs s) p of
        None \<Rightarrow> (Inl (FileNotFoundError p), s\<lparr>trace := trace s @ [Rmtree p]\<rparr>)
      | Some File \<Rightarrow> (Inl (NotADirectoryError p), s\<lparr>trace := trace s @ [Rmtree p]\<rparr>)
      | Some Dir \<Rightarrow>
          (Inr (), s\<lparr>fs := filter (\<lambda>e. \<not> beneath p (fst e)) (fs s),
                      trace := trace s @ [Rmtree p]\<rparr>))"
  by (simp add: rmtree_call_def rmtree_def split: option.splits kind.splits)

text \<open>The first occurrence, stated without the search function.\<close>

lemma first_occurrence:
  assumes "s = a @ sub @ b" "s = a' @ sub @ b'" "length a = length a'"
  shows "a = a'"
  using assms by (metis append_eq_append_conv)

lemma shorter_is_prefix:
  "xs @ ys = p @ q \<Longrightarrow> length p \<le> length xs \<Longrightarrow> \<exists>v. xs = p @ v"
  by (auto simp: append_eq_append_conv2)

lemma earlier_occurrence:
  assumes eq: "a @ ''s3:'' @ b = a0 @ ''s3:'' @ b0" and lt: "length a0 < length a"
  shows "\<exists>v. a @ ''s3'' = a0 @ ''s3:'' @ v"
proof -
  have e: "(a @ ''s3'') @ ('':'' @ b) = (a0 @ ''s3:'') @ b0" using eq by simp
  have len: "length (a0 @ ''s3:'') \<le> length (a @ ''s3'')" using lt by simp
  from shorter_is_prefix [OF e len] obtain v where "a @ ''s3'' = (a0 @ ''s3:'') @ v" by blast
  then have "a @ ''s3'' = a0 @ ''s3:'' @ v" by simp
  then show ?thesis by blast
qed

lemma py_find_at:
  assumes eq: "s = a @ ''s3:'' @ b" and first: "\<forall>u v. a @ ''s3'' \<noteq> u @ ''s3:'' @ v"
  shows "py_find s ''s3:'' = int (length a)"
proof -
  have ne: "py_find s ''s3:'' \<noteq> - 1" using py_find_absent [of s "''s3:''" a b] eq by blast
  from py_find_first [OF ne] obtain a0 b0 where
    a0: "s = a0 @ ''s3:'' @ b0" "py_find s ''s3:'' = int (length a0)"
        "\<forall>a' b'. s = a' @ ''s3:'' @ b' \<longrightarrow> length a0 \<le> length a'" by blast
  from a0(3) eq have le: "length a0 \<le> length a" by blast
  have "\<not> length a0 < length a"
  proof
    assume "length a0 < length a"
    with earlier_occurrence [of a b a0 b0] eq a0(1) obtain v where
      "a @ ''s3'' = a0 @ ''s3:'' @ v" by auto
    with first show False by blast
  qed
  with le have "length a0 = length a" by simp
  with a0(2) show ?thesis by simp
qed

lemma example_no_marker:
  "''/tmp/run123/'' @ ''s3'' \<noteq> u @ ''s3:'' @ v"
  "''/tmp/run123/local/exp1'' \<noteq> u @ ''s3:'' @ v"
  using py_find_absent [of "''/tmp/run123/s3''" "''s3:''" u v]
    py_find_absent [of "''/tmp/run123/local/exp1''" "''s3:''" u v]
  by simp_all

text \<open>
  Claim C4, as stated, fails: a working directory that contains \<^verbatim>\<open>s3:\<close> only as part
  of the directory name \<^verbatim>\<open>s3:x\<close> makes the cleaner call \<^verbatim>\<open>rmtree\<close> on
  \<^verbatim>\<open>/tmp/run123/s3:\<close>, which does not exist: the call raises and nothing is deleted.
\<close>

theorem clean_up_s3_artifacts_raises_on_partial_name:
  "clean_up_s3_artifacts (example_state_s3x ''/tmp/run123/s3:x/job1'')
     = (Inl (FileNotFoundError ''/tmp/run123/s3:''),
        (example_state_s3x ''/tmp/run123/s3:x/job1'')
          \<lparr>trace := [Getcwd, Rmtree ''/tmp/run123/s3:'']\<rparr>)"
proof -
  let ?s = "example_state_s3x ''/tmp/run123/s3:x/job1''"
  have c: "cwd ?s = ''/tmp/run123/'' @ ''s3:'' @ ''x/job1''"
    by (simp add: example_state_s3x_def)
  have f: "\<forall>u v. ''/tmp/run123/'' @ ''s3'' \<noteq> u @ ''s3:'' @ v"
    using example_no_marker(1) by blast
  have "py_find (cwd ?s) ''s3:'' = int (length ''/tmp/run123/'')"
    using py_find_at [OF c f] .
  from clean_up_present [OF c this]
  show ?thesis by (simp add: rmtree_call_eq example_state_s3x_def)
qed

text \<open>
  Claim C4, as the code has it. When the working directory is \<open>a @ ''s3:'' @ b\<close> and this
  is where the marker \<^verbatim>\<open>s3:\<close> first occurs, the cleaner calls \<^verbatim>\<open>rmtree\<close> on
  \<open>a @ ''s3:''\<close>, the prefix up to and including the marker. When that prefix is an
  existing directory, it and everything beneath it is removed and nothing else is. When it
  is a regular file or does not exist, the call raises \<^verbatim>\<open>NotADirectoryError\<close> or
  \<^verbatim>\<open>FileNotFoundError\<close> and nothing is removed. When the working directory does not
  contain the marker, the cleaner reads the working directory, deletes nothing and returns
  normally.
\<close>

theorem clean_up_s3_artifacts_deletes_marker_prefix:
  "(cwd s = a @ ''s3:'' @ b \<and> (\<forall>u v. a @ ''s3'' \<noteq> u @ ''s3:'' @ v) \<longrightarrow>
      (map_of (fs s) (a @ ''s3:'') = Some Dir \<longrightarrow>
         clean_up_s3_artifacts s =
           (Inr (), s\<lparr>fs := filter (\<lambda>e. \<not> beneath (a @ ''s3:'') (fst e)) (fs s),
                       trace := trace s @ [Getcwd, Rmtree (a @ ''s3:'')]\<rparr>))
    \<and> (map_of (fs s) (a @ ''s3:'') = Some File \<longrightarrow>
         clean_up_s3_artifacts s =
           (Inl (NotADirectoryError (a @ ''s3:'')),
            s\<lparr>trace := trace s @ [Getcwd, Rmtree (a @ ''s3:'')]\<rparr>))
    \<and> (map_of (fs s) (a @ ''s3:'') = None \<longrightarrow>
         clean_up_s3_artifacts s =
           (Inl (FileNotFoundError (a @ ''s3:'')),
            s\<lparr>trace := trace s @ [Getcwd, Rmtree (a @ ''s3:'')]\<rparr>)))
   \<and> ((\<forall>u v. cwd s \<noteq> u @ ''s3:'' @ v) \<longrightarrow>
      clean_up_s3_artifacts s = (Inr (), s\<lparr>trace := trace s @ [Getcwd]\<rparr>))"
  (is "(?H \<longrightarrow> ?X) \<and> (?N \<longrightarrow> ?Y)")
proof -
  have A: "?H \<longrightarrow> ?X"
  proof
    assume h: ?H
    then have "py_find (cwd s) ''s3:'' = int (length a)" using py_find_at by blast
    with h have e: "clean_up_s3_artifacts s =
        rmtree_call (a @ ''s3:'') (s\<lparr>trace := trace s @ [Getcwd]\<rparr>)"
      using clean_up_present by blast
    show ?X unfolding e by (simp add: rmtree_call_eq)
  qed
  have B: "?N \<longrightarrow> ?Y"
  proof
    assume h: ?N
    have "py_find (cwd s) ''s3:'' = - 1"
    proof (rule ccontr)
      assume "py_find (cwd s) ''s3:'' \<noteq> - 1"
      from py_find_first [OF this] h show False by blast
    qed
    then show ?Y by (rule clean_up_absent)
  qed
  from A B show ?thesis by (rule conjI)
qed

theorem clean_up_s3_artifacts_deletes_marker_prefix_witness:
  "clean_up_s3_artifacts (example_state ''s3://bucket/exp1'' VNone ''/tmp/run123/s3:/exp1/job1'')
     = (Inr (), (example_state ''s3://bucket/exp1'' VNone ''/tmp/run123/s3:/exp1/job1'')
          \<lparr>fs := [(''/tmp'', Dir), (''/tmp/run123'', Dir), (''/tmp/run123/s3:x'', Dir),
                   (''/tmp/run123/local'', Dir), (''/tmp/run123/local/exp1'', Dir)],
            trace := [Getcwd, Rmtree ''/tmp/run123/s3:'']\<rparr>)
   \<and> clean_up_s3_artifacts (example_state ''s3://bucket/exp1'' VNone ''/tmp/run123/local/exp1'')
     = (Inr (), (example_state ''s3://bucket/exp1'' VNone ''/tmp/run123/local/exp1'')
          \<lparr>trace := [Getcwd]\<rparr>)"
proof -
  let ?s1 = "example_state ''s3://bucket/exp1'' VNone ''/tmp/run123/s3:/exp1/job1''"
  let ?s2 = "example_state ''s3://bucket/exp1'' VNone ''/tmp/run123/local/exp1''"
  have h1: "cwd ?s1 = ''/tmp/run123/'' @ ''s3:'' @ ''/exp1/job1''
      \<and> (\<forall>u v. ''/tmp/run123/'' @ ''s3'' \<noteq> u @ ''s3:'' @ v)"
    using example_no_marker(1) by (simp add: example_state_def)
  have d: "map_of (fs ?s1) (''/tmp/run123/'' @ ''s3:'') = Some Dir"
    by (simp add: example_state_def)
  have f2: "\<forall>u v. cwd ?s2 \<noteq> u @ ''s3:'' @ v"
    using example_no_marker(2) by (simp add: example_state_def)
  note t1 = clean_up_s3_artifacts_deletes_marker_prefix
    [where s = ?s1 and a = "''/tmp/run123/''" and b = "''/exp1/job1''",
     THEN conjunct1, THEN mp, OF h1, THEN conjunct1, THEN mp, OF d]
  note t2 = clean_up_s3_artifacts_deletes_marker_prefix
    [where s = ?s2, THEN conjunct2, THEN mp, OF f2]
  have a: "clean_up_s3_artifacts ?s1
     = (Inr (), ?s1\<lparr>fs := [(''/tmp'', Dir), (''/tmp/run123'', Dir), (''/tmp/run123/s3:x'', Dir),
                   (''/tmp/run123/local'', Dir), (''/tmp/run123/local/exp1'', Dir)],
            trace := [Getcwd, Rmtree ''/tmp/run123/s3:'']\<rparr>)"
    using t1 by (simp add: example_state_def beneath_def)
  have b: "clean_up_s3_artifacts ?s2 = (Inr (), ?s2\<lparr>trace := [Getcwd]\<rparr>)"
    using t2 by (simp add: example_state_def)
  from a b show ?thesis by (rule conjI)
qed

text \<open>
  Claim C9, as stated, fails: with two markers in the working directory the first one
  ends the prefix \<^verbatim>\<open>/tmp/run123/s3:\<close>, which here is only the beginning of the directory
  name \<^verbatim>\<open>s3:x\<close>. The call of \<^verbatim>\<open>rmtree\<close> raises and nothing is deleted, although the
  prefix that ends at the second marker is an existing directory.
\<close>

theorem clean_up_s3_artifacts_first_marker_not_a_directory:
  "map_of (fs (example_state_s3x ''/tmp/run123/s3:x/s3:/exp1'')) ''/tmp/run123/s3:x/s3:''
     = Some Dir
   \<and> clean_up_s3_artifacts (example_state_s3x ''/tmp/run123/s3:x/s3:/exp1'')
     = (Inl (FileNotFoundError ''/tmp/run123/s3:''),
        (example_state_s3x ''/tmp/run123/s3:x/s3:/exp1'')
          \<lparr>trace := [Getcwd, Rmtree ''/tmp/run123/s3:'']\<rparr>)"
proof -
  let ?s = "example_state_s3x ''/tmp/run123/s3:x/s3:/exp1''"
  have c: "cwd ?s = ''/tmp/run123/'' @ ''s3:'' @ ''x/s3:/exp1''"
    by (simp add: example_state_s3x_def)
  have f: "\<forall>u v. ''/tmp/run123/'' @ ''s3'' \<noteq> u @ ''s3:'' @ v"
    using example_no_marker(1) by blast
  have "py_find (cwd ?s) ''s3:'' = int (length ''/tmp/run123/'')"
    using py_find_at [OF c f] .
  from clean_up_present [OF c this]
  show ?thesis by (simp add: rmtree_call_eq example_state_s3x_def)
qed

text \<open>
  Claim C9, as the code has it. Whenever the marker \<^verbatim>\<open>s3:\<close> occurs in the working
  directory, at whatever position, the prefix handed to \<^verbatim>\<open>rmtree\<close> ends at the first
  occurrence: no occurrence starts earlier. When that prefix is an existing directory,
  the cleaner returns normally and exactly that directory and everything beneath it is
  removed; otherwise the cleaner raises and nothing is removed.
\<close>

theorem clean_up_s3_artifacts_first_marker:
  assumes "cwd s = a @ ''s3:'' @ b"
  shows "\<exists>a0 b0. cwd s = a0 @ ''s3:'' @ b0 \<and> length a0 \<le> length a
           \<and> (\<forall>a' b'. cwd s = a' @ ''s3:'' @ b' \<longrightarrow> length a0 \<le> length a')
           \<and> events clean_up_s3_artifacts s = [Getcwd, Rmtree (a0 @ ''s3:'')]
           \<and> (map_of (fs s) (a0 @ ''s3:'') = Some Dir \<longrightarrow>
                fst (clean_up_s3_artifacts s) = Inr ()
                \<and> fs (snd (clean_up_s3_artifacts s))
                    = filter (\<lambda>e. \<not> beneath (a0 @ ''s3:'') (fst e)) (fs s))
           \<and> (map_of (fs s) (a0 @ ''s3:'') \<noteq> Some Dir \<longrightarrow>
                (\<exists>e. fst (clean_up_s3_artifacts s) = Inl e)
                \<and> fs (snd (clean_up_s3_artifacts s)) = fs s)"
proof -
  have ne: "py_find (cwd s) ''s3:'' \<noteq> - 1"
    using py_find_absent [of "cwd s" "''s3:''" a b] assms by blast
  from py_find_first [OF ne] obtain a0 b0 where
    a0: "cwd s = a0 @ ''s3:'' @ b0" "py_find (cwd s) ''s3:'' = int (length a0)"
        "\<forall>a' b'. cwd s = a' @ ''s3:'' @ b' \<longrightarrow> length a0 \<le> length a'" by blast
  from a0(3) assms have le: "length a0 \<le> length a" by blast
  have e: "clean_up_s3_artifacts s =
      rmtree_call (a0 @ ''s3:'') (s\<lparr>trace := trace s @ [Getcwd]\<rparr>)"
    using clean_up_present [OF a0(1) a0(2)] .
  have ev: "events clean_up_s3_artifacts s = [Getcwd, Rmtree (a0 @ ''s3:'')]"
    unfolding events_def e
    by (simp add: rmtree_call_eq split: option.splits kind.splits)
  have d: "map_of (fs s) (a0 @ ''s3:'') = Some Dir \<longrightarrow>
                fst (clean_up_s3_artifacts s) = Inr ()
                \<and> fs (snd (clean_up_s3_artifacts s))
                    = filter (\<lambda>e. \<not> beneath (a0 @ ''s3:'') (fst e)) (fs s)"
    unfolding e by (simp add: rmtree_call_eq)
  have n: "map_of (fs s) (a0 @ ''s3:'') \<noteq> Some Dir \<longrightarrow>
                (\<exists>e. fst (clean_up_s3_artifacts s) = Inl e)
                \<and> fs (snd (clean_up_s3_artifacts s)) = fs s"
    unfolding e by (simp add: rmtree_call_eq split: option.splits kind.splits)
  from a0(1) le a0(3) ev d n show ?thesis by blast
qed

theorem clean_up_s3_artifacts_first_marker_witness:
  "cwd (example_state ''s3://bucket/exp1'' VNone ''/tmp/run123/s3:/exp1/s3:/job1'')
     = ''/tmp/run123/s3:/exp1/'' @ ''s3:'' @ ''/job1''
   \<and> events clean_up_s3_artifacts
         (example_state ''s3://bucket/exp1'' VNone ''/tmp/run123/s3:/exp1/s3:/job1'')
       = [Getcwd, Rmtree ''/tmp/run123/s3:'']
   \<and> fs (snd (clean_up_s3_artifacts
         (example_state ''s3://bucket/exp1'' VNone ''/tmp/run123/s3:/exp1/s3:/job1'')))
       = [(''/tmp'', Dir), (''/tmp/run123'', Dir), (''/tmp/run123/s3:x'', Dir),
          (''/tmp/run123/local'', Dir), (''/tmp/run123/local/exp1'', Dir)]"
proof -
  let ?s = "example_state ''s3://bucket/exp1'' VNone ''/tmp/run123/s3:/exp1/s3:/job1''"
  have c: "cwd ?s = ''/tmp/run123/s3:/exp1/'' @ ''s3:'' @ ''/job1''"
    by (simp add: example_state_def)
  from clean_up_s3_artifacts_first_marker [OF c] obtain a0 b0 where
    h: "cwd ?s = a0 @ ''s3:'' @ b0"
       "\<forall>a' b'. cwd ?s = a' @ ''s3:'' @ b' \<longrightarrow> length a0 \<le> length a'"
       "events clean_up_s3_artifacts ?s = [Getcwd, Rmtree (a0 @ ''s3:'')]"
       "map_of (fs ?s) (a0 @ ''s3:'') = Some Dir \<longrightarrow>
          fst (clean_up_s3_artifacts ?s) = Inr ()
          \<and> fs (snd (clean_up_s3_artifacts ?s))
              = filter (\<lambda>e. \<not> beneath (a0 @ ''s3:'') (fst e)) (fs ?s)" by blast
  have c': "cwd ?s = ''/tmp/run123/'' @ ''s3:'' @ ''/exp1/s3:/job1''"
    by (simp add: example_state_def)
  with h(2) have le: "length a0 \<le> length ''/tmp/run123/''" by blast
  have f1: "\<forall>u v. ''/tmp/run123/'' @ ''s3'' \<noteq> u @ ''s3:'' @ v"
    using example_no_marker(1) by blast
  have "\<not> length a0 < length ''/tmp/run123/''"
  proof
    assume "length a0 < length ''/tmp/run123/''"
    with earlier_occurrence [of "''/tmp/run123/''" "''/exp1/s3:/job1''" a0 b0] c' h(1)
    obtain v where "''/tmp/run123/'' @ ''s3'' = a0 @ ''s3:'' @ v" by auto
    with f1 show False by blast
  qed
  with le have "length ''/tmp/run123/'' = length a0" by simp
  with first_occurrence [OF c' h(1)] have a0: "a0 = ''/tmp/run123/''" by simp
  from h(3) a0 have ev: "events clean_up_s3_artifacts ?s = [Getcwd, Rmtree ''/tmp/run123/s3:'']"
    by simp
  have d: "map_of (fs ?s) (''/tmp/run123/'' @ ''s3:'') = Some Dir"
    by (simp add: example_state_def)
  from h(4) [unfolded a0, THEN mp, OF d]
  have "fs (snd (clean_up_s3_artifacts ?s))
      = filter (\<lambda>e. \<not> beneath (''/tmp/run123/'' @ ''s3:'') (fst e)) (fs ?s)"
    by (rule conjunct2)
  then have fsr: "fs (snd (clean_up_s3_artifacts ?s))
       = [(''/tmp'', Dir), (''/tmp/run123'', Dir), (''/tmp/run123/s3:x'', Dir),
          (''/tmp/run123/local'', Dir), (''/tmp/run123/local/exp1'', Dir)]"
    by (simp add: example_state_def beneath_def)
  from c ev fsr show ?thesis by blast
qed

subsection \<open>Unfolding \<^verbatim>\<open>run_simulation\<close>\<close>

lemma bnd_read_conf:
  "bnd (read_conf f) g s = (case f (conf s) of Inl e \<Rightarrow> (Inl e, s) | Inr a \<Rightarrow> g a s)"
  by (simp add: bnd_def read_conf_def split: sum.splits)

lemma bnd_call:
  "bnd (call ev r) g s =
     (case r of Inl e \<Rightarrow> (Inl e, s\<lparr>trace := trace s @ [ev]\<rparr>)
              | Inr a \<Rightarrow> g a (s\<lparr>trace := trace s @ [ev]\<rparr>))"
  by (simp add: bnd_def call_def split: sum.splits)

lemma bnd_get_conf: "bnd get_conf g s = g (conf s) s"
  by (simp add: bnd_def get_conf_def)

lemma bnd_emit: "bnd (emit ev) g s = g () (s\<lparr>trace := trace s @ [ev]\<rparr>)"
  by (simp add: bnd_def emit_def)

lemma bnd_ret: "bnd (ret a) g s = g a s"
  by (simp add: bnd_def ret_def)

lemma merge_planner_eq:
  "merge_planner planners s =
     (if truthy planners \<and> ''planner'' \<in> set (cfg_keys (conf s))
      then (Inr (),
            s\<lparr>conf := \<lparr>items = filter (\<lambda>kv. fst kv \<noteq> ''planner'') (items (conf s)),
                        struct = True\<rparr>,
              trace := trace s @
                [LoggerInfo ''Using pre-instantiated planner. Ignoring planner in config'',
                 SetStruct False, Pop ''planner'', SetStruct True]\<rparr>)
      else (Inr (), s))"
  by (simp add: merge_planner_def bnd_def get_conf_def emit_def omegaconf_set_struct_def
      pop_conf_def cfg_pop_def set_struct_def cfg_keys_def ret_def)

lemma bnd_merge_planner_hit:
  "truthy planners \<Longrightarrow> ''planner'' \<in> set (cfg_keys (conf s)) \<Longrightarrow>
   bnd (merge_planner planners) g s =
     g () (s\<lparr>conf := \<lparr>items = filter (\<lambda>kv. fst kv \<noteq> ''planner'') (items (conf s)),
                        struct = True\<rparr>,
              trace := trace s @
                [LoggerInfo ''Using pre-instantiated planner. Ignoring planner in config'',
                 SetStruct False, Pop ''planner'', SetStruct True]\<rparr>)"
  by (simp add: bnd_def merge_planner_eq)

lemma bnd_merge_planner_miss:
  "\<not> (truthy planners \<and> ''planner'' \<in> set (cfg_keys (conf s))) \<Longrightarrow>
   bnd (merge_planner planners) g s = g () s"
  by (auto simp: bnd_def merge_planner_eq)

lemmas run_unfold = run_simulation_def bnd_read_conf bnd_call bnd_get_conf bnd_emit bnd_ret
  Let_def emit_def call_def ret_def

lemma map_of_drop_key:
  "key \<noteq> k \<Longrightarrow> map_of (filter (\<lambda>kv. fst kv \<noteq> k) xs) key = map_of xs key"
  by (induction xs) auto

lemma run_simulation_hit:
  assumes hit: "truthy planners" "''planner'' \<in> set (cfg_keys (conf s))"
    and rs: "run_simulation k planners s = (r, s')"
  shows "(filter is_cfg_mutation (drop (length (trace s)) (trace s')) = [] \<and> conf s' = conf s)
     \<or> (filter is_cfg_mutation (drop (length (trace s)) (trace s'))
           = [SetStruct False, Pop ''planner'', SetStruct True]
       \<and> sublist [SetStruct False, Pop ''planner'', SetStruct True]
           (drop (length (trace s)) (trace s'))
       \<and> conf s' = \<lparr>items = filter (\<lambda>kv. fst kv \<noteq> ''planner'') (items (conf s)),
                     struct = True\<rparr>)"
  using rs hit
  by (auto simp: run_unfold bnd_merge_planner_hit sublist_Cons_right
      split: sum.splits option.splits)

lemma run_simulation_miss:
  assumes miss: "\<not> (truthy planners \<and> ''planner'' \<in> set (cfg_keys (conf s)))"
    and rs: "run_simulation k planners s = (r, s')"
  shows "filter is_cfg_mutation (drop (length (trace s)) (trace s')) = [] \<and> conf s' = conf s"
  using rs miss
  by (auto simp: run_unfold bnd_merge_planner_miss split: sum.splits option.splits)


text \<open>
  Claim C8. In every execution of \<^verbatim>\<open>run_simulation\<close>, whatever the collaborators return,
  the statements of \<^verbatim>\<open>run_simulation\<close> either leave the configuration untouched, or
  change it exactly once: the consecutive operations \<^verbatim>\<open>set_struct(False)\<close>,
  \<^verbatim>\<open>pop('planner')\<close>, \<^verbatim>\<open>set_struct(True)\<close>, after which the \<^verbatim>\<open>planner\<close> entry is gone
  and the struct flag is set. Every other key keeps its value.
\<close>

theorem run_simulation_mutates_cfg_once:
  "((filter is_cfg_mutation (events (run_simulation k planners) s) = []
       \<and> conf (snd (run_simulation k planners s)) = conf s)
     \<or> (truthy planners \<and> ''planner'' \<in> set (cfg_keys (conf s))
       \<and> filter is_cfg_mutation (events (run_simulation k planners) s)
           = [SetStruct False, Pop ''planner'', SetStruct True]
       \<and> sublist [SetStruct False, Pop ''planner'', SetStruct True]
           (events (run_simulation k planners) s)
       \<and> conf (snd (run_simulation k planners s))
           = \<lparr>items = filter (\<lambda>kv. fst kv \<noteq> ''planner'') (items (conf s)), struct = True\<rparr>))
   \<and> (\<forall>key. key \<noteq> ''planner'' \<longrightarrow>
         map_of (items (conf (snd (run_simulation k planners s)))) key
           = map_of (items (conf s)) key)"
proof -
  obtain r s' where rs: "run_simulation k planners s = (r, s')"
    by (cases "run_simulation k planners s")
  have ev: "events (run_simulation k planners) s = drop (length (trace s)) (trace s')"
    by (simp add: events_def rs)
  have cf: "conf (snd (run_simulation k planners s)) = conf s'"
    by (simp add: rs)
  show ?thesis
  proof (cases "truthy planners \<and> ''planner'' \<in> set (cfg_keys (conf s))")
    case True
    then have t: "truthy planners" and p: "''planner'' \<in> set (cfg_keys (conf s))" by simp_all
    from run_simulation_hit [OF t p rs] show ?thesis
      unfolding ev cf using t p by (auto simp: map_of_drop_key)
  next
    case False
    from run_simulation_miss [OF False rs] show ?thesis
      unfolding ev cf by simp
  qed
qed


theorem run_simulation_mutates_cfg_once_witness:
  "''seed'' \<noteq> ''planner''
   \<and> map_of (items (conf (snd (run_simulation example_collab (SinglePlanner (Planner 7))
         (example_state ''/local/exp1'' VNone ''/tmp''))))) ''seed'' = Some (VInt 0)"
proof -
  have ne: "''seed'' \<noteq> ''planner''" by simp
  have "map_of (items (conf (snd (run_simulation example_collab (SinglePlanner (Planner 7))
         (example_state ''/local/exp1'' VNone ''/tmp''))))) ''seed''
      = map_of (items (conf (example_state ''/local/exp1'' VNone ''/tmp''))) ''seed''"
    by (rule run_simulation_mutates_cfg_once
      [where k = example_collab and planners = "SinglePlanner (Planner 7)"
         and s = "example_state ''/local/exp1'' VNone ''/tmp''",
       THEN conjunct2, THEN spec, THEN mp, OF ne])
  then show ?thesis by (simp add: example_state_def example_cfg_def)
qed

subsection \<open>The planner merge\<close>

lemma reach_build_miss:
  assumes "cfg_getattr ''seed'' (conf s) = Inr sd"
    and "seed_everything k sd = Inr ()"
    and "set_up_common_builder k (conf s) ''building_simulation'' = Inr cb"
    and "build_callbacks_worker k (conf s) = Inr cw"
    and "build_simulation_callbacks k (conf s) (output_dir cb) cw = Inr cbs"
    and "\<not> (truthy planners \<and> ''planner'' \<in> set (cfg_keys (conf s)))"
  shows "prefix
     [SeedEverything sd, SetUpCommonBuilder (conf s) ''building_simulation'',
      BuildCallbacksWorker (conf s), BuildSimulationCallbacks (conf s) (output_dir cb) cw,
      BuildSimulations (conf s) cbs (worker cb) (wrap_single planners) cw]
     (events (run_simulation k planners) s)"
  using assms
  by (simp add: events_def run_unfold bnd_merge_planner_miss split: sum.splits option.splits)

lemma reach_build_hit:
  assumes "cfg_getattr ''seed'' (conf s) = Inr sd"
    and "seed_everything k sd = Inr ()"
    and "set_up_common_builder k (conf s) ''building_simulation'' = Inr cb"
    and "build_callbacks_worker k (conf s) = Inr cw"
    and "build_simulation_callbacks k (conf s) (output_dir cb) cw = Inr cbs"
    and "truthy planners" and "''planner'' \<in> set (cfg_keys (conf s))"
  shows "prefix
     [SeedEverything sd, SetUpCommonBuilder (conf s) ''building_simulation'',
      BuildCallbacksWorker (conf s), BuildSimulationCallbacks (conf s) (output_dir cb) cw,
      LoggerInfo ''Using pre-instantiated planner. Ignoring planner in config'',
      SetStruct False, Pop ''planner'', SetStruct True,
      BuildSimulations
        \<lparr>items = filter (\<lambda>kv. fst kv \<noteq> ''planner'') (items (conf s)), struct = True\<rparr>
        cbs (worker cb) (wrap_single planners) cw]
     (events (run_simulation k planners) s)
   \<and> conf (snd (run_simulation k planners s))
       = \<lparr>items = filter (\<lambda>kv. fst kv \<noteq> ''planner'') (items (conf s)), struct = True\<rparr>"
  using assms
  by (simp add: events_def run_unfold bnd_merge_planner_hit split: sum.splits option.splits)

lemma run_simulation_conf_miss:
  "\<not> (truthy planners \<and> ''planner'' \<in> set (cfg_keys (conf s))) \<Longrightarrow>
   conf (snd (run_simulation k planners s)) = conf s
   \<and> filter is_cfg_mutation (events (run_simulation k planners) s) = []"
proof -
  assume miss: "\<not> (truthy planners \<and> ''planner'' \<in> set (cfg_keys (conf s)))"
  obtain r s' where rs: "run_simulation k planners s = (r, s')"
    by (cases "run_simulation k planners s")
  from run_simulation_miss [OF miss rs] show ?thesis
    by (simp add: events_def rs)
qed


lemma example_reach:
  "cfg_getattr ''seed'' (conf (example_state od lp wd)) = Inr (VInt 0)"
  "seed_everything example_collab sd = Inr ()"
  "set_up_common_builder example_collab c n = Inr example_builder"
  "build_callbacks_worker example_collab c = Inr (Worker 1)"
  "build_simulation_callbacks example_collab c d w = Inr (Callbacks 0)"
  "''planner'' \<in> set (cfg_keys (conf (example_state od lp wd)))"
  by (simp_all add: example_state_def example_cfg_def example_collab_def cfg_getattr_def
      cfg_keys_def)

text \<open>
  Claim C2. When \<^verbatim>\<open>run_simulation\<close> is given a single pre-built planner \<open>P\<close>, or a
  non-empty list of planners, and the configuration has a \<^verbatim>\<open>planner\<close> key, then, once
  the context, the callback worker and the callbacks are built, the key is popped before
  \<^verbatim>\<open>build_simulations\<close> is called: the configuration handed to it has no \<^verbatim>\<open>planner\<close>
  key, and neither has the configuration at the end of the run. For a single planner
  \<open>P\<close> the call receives the list \<open>[P]\<close>; a list is passed as it is.
\<close>

theorem run_simulation_with_planners:
  assumes "cfg_getattr ''seed'' (conf s) = Inr sd"
    and "seed_everything k sd = Inr ()"
    and "set_up_common_builder k (conf s) ''building_simulation'' = Inr cb"
    and "build_callbacks_worker k (conf s) = Inr cw"
    and "build_simulation_callbacks k (conf s) (output_dir cb) cw = Inr cbs"
    and "planners = SinglePlanner P \<or> planners = PlannerList (p # ps)"
    and "''planner'' \<in> set (cfg_keys (conf s))"
  shows "\<exists>c received.
     prefix
       [SeedEverything sd, SetUpCommonBuilder (conf s) ''building_simulation'',
        BuildCallbacksWorker (conf s), BuildSimulationCallbacks (conf s) (output_dir cb) cw,
        LoggerInfo ''Using pre-instantiated planner. Ignoring planner in config'',
        SetStruct False, Pop ''planner'', SetStruct True,
        BuildSimulations c cbs (worker cb) received cw]
       (events (run_simulation k planners) s)
     \<and> ''planner'' \<notin> set (cfg_keys c)
     \<and> conf (snd (run_simulation k planners s)) = c
     \<and> (planners = SinglePlanner P \<longrightarrow> received = PlannerList [P])
     \<and> (planners = PlannerList (p # ps) \<longrightarrow> received = PlannerList (p # ps))"
proof -
  let ?c = "\<lparr>items = filter (\<lambda>kv. fst kv \<noteq> ''planner'') (items (conf s)), struct = True\<rparr>"
  have t: "truthy planners" using assms(6) by auto
  have nk: "''planner'' \<notin> set (cfg_keys ?c)" by (auto simp: cfg_keys_def)
  have w: "(planners = SinglePlanner P \<longrightarrow> wrap_single planners = PlannerList [P])
     \<and> (planners = PlannerList (p # ps) \<longrightarrow> wrap_single planners = PlannerList (p # ps))"
    by auto
  from reach_build_hit [OF assms(1-5) t assms(7)] nk w show ?thesis by blast
qed

theorem run_simulation_with_planners_witness:
  "\<exists>c received.
     prefix
       [SeedEverything (VInt 0),
        SetUpCommonBuilder (conf (example_state ''/local/exp1'' VNone ''/tmp''))
          ''building_simulation'',
        BuildCallbacksWorker (conf (example_state ''/local/exp1'' VNone ''/tmp'')),
        BuildSimulationCallbacks (conf (example_state ''/local/exp1'' VNone ''/tmp''))
          (output_dir example_builder) (Worker 1),
        LoggerInfo ''Using pre-instantiated planner. Ignoring planner in config'',
        SetStruct False, Pop ''planner'', SetStruct True,
        BuildSimulations c (Callbacks 0) (worker example_builder) received (Worker 1)]
       (events (run_simulation example_collab (SinglePlanner (Planner 7)))
          (example_state ''/local/exp1'' VNone ''/tmp''))
     \<and> ''planner'' \<notin> set (cfg_keys c)
     \<and> conf (snd (run_simulation example_collab (SinglePlanner (Planner 7))
          (example_state ''/local/exp1'' VNone ''/tmp''))) = c
     \<and> received = PlannerList [Planner 7]"
proof -
  have d: "SinglePlanner (Planner 7) = SinglePlanner (Planner 7)
      \<or> SinglePlanner (Planner 7) = PlannerList (Planner 0 # [])" by simp
  from run_simulation_with_planners
    [OF example_reach(1) example_reach(2) example_reach(3) example_reach(4) example_reach(5)
        d example_reach(6)]
  obtain c received where
    h: "prefix
       [SeedEverything (VInt 0),
        SetUpCommonBuilder (conf (example_state ''/local/exp1'' VNone ''/tmp''))
          ''building_simulation'',
        BuildCallbacksWorker (conf (example_state ''/local/exp1'' VNone ''/tmp'')),
        BuildSimulationCallbacks (conf (example_state ''/local/exp1'' VNone ''/tmp''))
          (output_dir example_builder) (Worker 1),
        LoggerInfo ''Using pre-instantiated planner. Ignoring planner in config'',
        SetStruct False, Pop ''planner'', SetStruct True,
        BuildSimulations c (Callbacks 0) (worker example_builder) received (Worker 1)]
       (events (run_simulation example_collab (SinglePlanner (Planner 7)))
          (example_state ''/local/exp1'' VNone ''/tmp''))"
      "''planner'' \<notin> set (cfg_keys c)"
      "conf (snd (run_simulation example_collab (SinglePlanner (Planner 7))
          (example_state ''/local/exp1'' VNone ''/tmp''))) = c"
      "SinglePlanner (Planner 7) = SinglePlanner (Planner 7) \<longrightarrow>
         received = PlannerList [Planner 7]"
    by blast
  from h(4) have "received = PlannerList [Planner 7]" by simp
  with h(1-3) show ?thesis by blast
qed

text \<open>
  Claim C3. With \<^verbatim>\<open>planners=None\<close> the configuration is the same after the run as
  before it, whatever the collaborators return and whether or not it has a \<^verbatim>\<open>planner\<close>
  key, and no configuration operation is performed; \<^verbatim>\<open>None\<close> and a list are left
  unchanged by the normalisation; and once the context, the callback worker and the
  callbacks are built, \<^verbatim>\<open>build_simulations\<close> is called with the unmodified
  configuration and \<^verbatim>\<open>None\<close>.
\<close>

theorem run_simulation_without_planners:
  "conf (snd (run_simulation k NoPlanners s)) = conf s
   \<and> filter is_cfg_mutation (events (run_simulation k NoPlanners) s) = []
   \<and> wrap_single NoPlanners = NoPlanners
   \<and> wrap_single (PlannerList ps) = PlannerList ps
   \<and> (cfg_getattr ''seed'' (conf s) = Inr sd
      \<and> seed_everything k sd = Inr ()
      \<and> set_up_common_builder k (conf s) ''building_simulation'' = Inr cb
      \<and> build_callbacks_worker k (conf s) = Inr cw
      \<and> build_simulation_callbacks k (conf s) (output_dir cb) cw = Inr cbs
      \<longrightarrow> prefix
            [SeedEverything sd, SetUpCommonBuilder (conf s) ''building_simulation'',
             BuildCallbacksWorker (conf s),
             BuildSimulationCallbacks (conf s) (output_dir cb) cw,
             BuildSimulations (conf s) cbs (worker cb) NoPlanners cw]
            (events (run_simulation k NoPlanners) s))"
proof -
  have miss: "\<not> (truthy NoPlanners \<and> ''planner'' \<in> set (cfg_keys (conf s)))" by simp
  have a: "conf (snd (run_simulation k NoPlanners s)) = conf s
     \<and> filter is_cfg_mutation (events (run_simulation k NoPlanners) s) = []"
    using run_simulation_conf_miss [OF miss] .
  have b: "cfg_getattr ''seed'' (conf s) = Inr sd
      \<and> seed_everything k sd = Inr ()
      \<and> set_up_common_builder k (conf s) ''building_simulation'' = Inr cb
      \<and> build_callbacks_worker k (conf s) = Inr cw
      \<and> build_simulation_callbacks k (conf s) (output_dir cb) cw = Inr cbs
      \<longrightarrow> prefix
            [SeedEverything sd, SetUpCommonBuilder (conf s) ''building_simulation'',
             BuildCallbacksWorker (conf s),
             BuildSimulationCallbacks (conf s) (output_dir cb) cw,
             BuildSimulations (conf s) cbs (worker cb) NoPlanners cw]
            (events (run_simulation k NoPlanners) s)"
  proof
    assume h: "cfg_getattr ''seed'' (conf s) = Inr sd
      \<and> seed_everything k sd = Inr ()
      \<and> set_up_common_builder k (conf s) ''building_simulation'' = Inr cb
      \<and> build_callbacks_worker k (conf s) = Inr cw
      \<and> build_simulation_callbacks k (conf s) (output_dir cb) cw = Inr cbs"
    from reach_build_miss [of s sd k cb cw cbs NoPlanners] h miss
    show "prefix
            [SeedEverything sd, SetUpCommonBuilder (conf s) ''building_simulation'',
             BuildCallbacksWorker (conf s),
             BuildSimulationCallbacks (conf s) (output_dir cb) cw,
             BuildSimulations (conf s) cbs (worker cb) NoPlanners cw]
            (events (run_simulation k NoPlanners) s)"
      by simp
  qed
  show ?thesis using a b by simp
qed

theorem run_simulation_without_planners_witness:
  "''planner'' \<in> set (cfg_keys (conf (snd (run_simulation example_collab NoPlanners
       (example_state ''/local/exp1'' VNone ''/tmp'')))))
   \<and> prefix
        [SeedEverything (VInt 0),
         SetUpCommonBuilder (conf (example_state ''/local/exp1'' VNone ''/tmp''))
           ''building_simulation'',
         BuildCallbacksWorker (conf (example_state ''/local/exp1'' VNone ''/tmp'')),
         BuildSimulationCallbacks (conf (example_state ''/local/exp1'' VNone ''/tmp''))
           (output_dir example_builder) (Worker 1),
         BuildSimulations (conf (example_state ''/local/exp1'' VNone ''/tmp''))
           (Callbacks 0) (worker example_builder) NoPlanners (Worker 1)]
        (events (run_simulation example_collab NoPlanners)
           (example_state ''/local/exp1'' VNone ''/tmp''))"
proof -
  let ?s = "example_state ''/local/exp1'' VNone ''/tmp''"
  note t = run_simulation_without_planners
    [where k = example_collab and s = ?s and sd = "VInt 0" and cb = example_builder
       and cw = "Worker 1" and cbs = "Callbacks 0"]
  from t have c: "conf (snd (run_simulation example_collab NoPlanners ?s)) = conf ?s"
    by (rule conjunct1)
  have r: "cfg_getattr ''seed'' (conf ?s) = Inr (VInt 0)
      \<and> seed_everything example_collab (VInt 0) = Inr ()
      \<and> set_up_common_builder example_collab (conf ?s) ''building_simulation''
          = Inr example_builder
      \<and> build_callbacks_worker example_collab (conf ?s) = Inr (Worker 1)
      \<and> build_simulation_callbacks example_collab (conf ?s) (output_dir example_builder)
          (Worker 1) = Inr (Callbacks 0)"
    using example_reach(1-5) by blast
  from t [THEN conjunct2, THEN conjunct2, THEN conjunct2, THEN conjunct2, THEN mp, OF r]
  have p: "prefix
        [SeedEverything (VInt 0), SetUpCommonBuilder (conf ?s) ''building_simulation'',
         BuildCallbacksWorker (conf ?s),
         BuildSimulationCallbacks (conf ?s) (output_dir example_builder) (Worker 1),
         BuildSimulations (conf ?s) (Callbacks 0) (worker example_builder) NoPlanners
           (Worker 1)]
        (events (run_simulation example_collab NoPlanners) ?s)" .
  from c example_reach(6) [of "''/local/exp1''" VNone "''/tmp''"]
  have k: "''planner'' \<in> set (cfg_keys (conf (snd (run_simulation example_collab NoPlanners ?s))))"
    by simp
  from k p show ?thesis by (rule conjI)
qed

text \<open>
  Claim C10. An empty list of planners is false in the test that guards the removal:
  the configuration is the same after the run as before it (a \<^verbatim>\<open>planner\<close> key stays),
  no configuration operation is performed, and once the context, the callback worker and
  the callbacks are built, \<^verbatim>\<open>build_simulations\<close> is called with the unmodified
  configuration and the empty list.
\<close>

theorem run_simulation_empty_planner_list:
  "conf (snd (run_simulation k (PlannerList []) s)) = conf s
   \<and> filter is_cfg_mutation (events (run_simulation k (PlannerList [])) s) = []
   \<and> (cfg_getattr ''seed'' (conf s) = Inr sd
      \<and> seed_everything k sd = Inr ()
      \<and> set_up_common_builder k (conf s) ''building_simulation'' = Inr cb
      \<and> build_callbacks_worker k (conf s) = Inr cw
      \<and> build_simulation_callbacks k (conf s) (output_dir cb) cw = Inr cbs
      \<longrightarrow> prefix
            [SeedEverything sd, SetUpCommonBuilder (conf s) ''building_simulation'',
             BuildCallbacksWorker (conf s),
             BuildSimulationCallbacks (conf s) (output_dir cb) cw,
             BuildSimulations (conf s) cbs (worker cb) (PlannerList []) cw]
            (events (run_simulation k (PlannerList [])) s))"
proof -
  have miss: "\<not> (truthy (PlannerList []) \<and> ''planner'' \<in> set (cfg_keys (conf s)))" by simp
  have a: "conf (snd (run_simulation k (PlannerList []) s)) = conf s
     \<and> filter is_cfg_mutation (events (run_simulation k (PlannerList [])) s) = []"
    using run_simulation_conf_miss [OF miss] .
  have b: "cfg_getattr ''seed'' (conf s) = Inr sd
      \<and> seed_everything k sd = Inr ()
      \<and> set_up_common_builder k (conf s) ''building_simulation'' = Inr cb
      \<and> build_callbacks_worker k (conf s) = Inr cw
      \<and> build_simulation_callbacks k (conf s) (output_dir cb) cw = Inr cbs
      \<longrightarrow> prefix
            [SeedEverything sd, SetUpCommonBuilder (conf s) ''building_simulation'',
             BuildCallbacksWorker (conf s),
             BuildSimulationCallbacks (conf s) (output_dir cb) cw,
             BuildSimulations (conf s) cbs (worker cb) (PlannerList []) cw]
            (events (run_simulation k (PlannerList [])) s)"
  proof
    assume h: "cfg_getattr ''seed'' (conf s) = Inr sd
      \<and> seed_everything k sd = Inr ()
      \<and> set_up_common_builder k (conf s) ''building_simulation'' = Inr cb
      \<and> build_callbacks_worker k (conf s) = Inr cw
      \<and> build_simulation_callbacks k (conf s) (output_dir cb) cw = Inr cbs"
    from reach_build_miss [of s sd k cb cw cbs "PlannerList []"] h miss
    show "prefix
            [SeedEverything sd, SetUpCommonBuilder (conf s) ''building_simulation'',
             BuildCallbacksWorker (conf s),
             BuildSimulationCallbacks (conf s) (output_dir cb) cw,
             BuildSimulations (conf s) cbs (worker cb) (PlannerList []) cw]
            (events (run_simulation k (PlannerList [])) s)"
      by simp
  qed
  show ?thesis using a b by simp
qed

theorem run_simulation_empty_planner_list_witness:
  "''planner'' \<in> set (cfg_keys (conf (snd (run_simulation example_collab (PlannerList [])
       (example_state ''/local/exp1'' VNone ''/tmp'')))))
   \<and> prefix
        [SeedEverything (VInt 0),
         SetUpCommonBuilder (conf (example_state ''/local/exp1'' VNone ''/tmp''))
           ''building_simulation'',
         BuildCallbacksWorker (conf (example_state ''/local/exp1'' VNone ''/tmp'')),
         BuildSimulationCallbacks (conf (example_state ''/local/exp1'' VNone ''/tmp''))
           (output_dir example_builder) (Worker 1),
         BuildSimulations (conf (example_state ''/local/exp1'' VNone ''/tmp''))
           (Callbacks 0) (worker example_builder) (PlannerList []) (Worker 1)]
        (events (run_simulation example_collab (PlannerList []))
           (example_state ''/local/exp1'' VNone ''/tmp''))"
proof -
  let ?s = "example_state ''/local/exp1'' VNone ''/tmp''"
  note t = run_simulation_empty_planner_list
    [where k = example_collab and s = ?s and sd = "VInt 0" and cb = example_builder
       and cw = "Worker 1" and cbs = "Callbacks 0"]
  from t have c: "conf (snd (run_simulation example_collab (PlannerList []) ?s)) = conf ?s"
    by (rule conjunct1)
  have r: "cfg_getattr ''seed'' (conf ?s) = Inr (VInt 0)
      \<and> seed_everything example_collab (VInt 0) = Inr ()
      \<and> set_up_common_builder example_collab (conf ?s) ''building_simulation''
          = Inr example_builder
      \<and> build_callbacks_worker example_collab (conf ?s) = Inr (Worker 1)
      \<and> build_simulation_callbacks example_collab (conf ?s) (output_dir example_builder)
          (Worker 1) = Inr (Callbacks 0)"
    using example_reach(1-5) by blast
  from t [THEN conjunct2, THEN conjunct2, THEN mp, OF r]
  have p: "prefix
        [SeedEverything (VInt 0), SetUpCommonBuilder (conf ?s) ''building_simulation'',
         BuildCallbacksWorker (conf ?s),
         BuildSimulationCallbacks (conf ?s) (output_dir example_builder) (Worker 1),
         BuildSimulations (conf ?s) (Callbacks 0) (worker example_builder) (PlannerList [])
           (Worker 1)]
        (events (run_simulation example_collab (PlannerList [])) ?s)" .
  from c example_reach(6) [of "''/local/exp1''" VNone "''/tmp''"]
  have k: "''planner'' \<in> set (cfg_keys (conf (snd (run_simulation example_collab
      (PlannerList []) ?s))))"
    by simp
  from k p show ?thesis by (rule conjI)
qed

subsection \<open>Construction before execution\<close>

lemma run_simulation_order:
  assumes rs: "run_simulation k planners s = (r, s')"
  shows "filter is_construction
           (dropWhile (\<lambda>e. \<not> is_execution e) (drop (length (trace s)) (trace s'))) = []
     \<and> filter (names_session ''running_simulation'') (drop (length (trace s)) (trace s'))
         = filter is_execution (drop (length (trace s)) (trace s'))
     \<and> filter is_save
         (takeWhile (\<lambda>e. \<not> is_build e) (drop (length (trace s)) (trace s'))) = []
     \<and> filter is_save
         (dropWhile (\<lambda>e. \<not> is_execution e) (drop (length (trace s)) (trace s'))) = []"
proof (cases "truthy planners \<and> ''planner'' \<in> set (cfg_keys (conf s))")
  case True
  then have t: "truthy planners" and p: "''planner'' \<in> set (cfg_keys (conf s))" by simp_all
  from rs t p show ?thesis
    by (auto simp: run_unfold bnd_merge_planner_hit split: sum.splits option.splits)
next
  case False
  with rs show ?thesis
    by (auto simp: run_unfold bnd_merge_planner_miss split: sum.splits option.splits)
qed

lemma run_simulation_save_window:
  assumes "cfg_getattr ''seed'' (conf s) = Inr sd"
    and "seed_everything k sd = Inr ()"
    and "set_up_common_builder k (conf s) ''building_simulation'' = Inr cb"
    and "build_callbacks_worker k (conf s) = Inr cw"
    and "build_simulation_callbacks k (conf s) (output_dir cb) cw = Inr cbs"
    and "profiler cb = Some p"
    and "c1 = (if truthy planners \<and> ''planner'' \<in> set (cfg_keys (conf s))
               then \<lparr>items = filter (\<lambda>kv. fst kv \<noteq> ''planner'') (items (conf s)),
                     struct = True\<rparr>
               else conf s)"
    and "build_simulations k c1 cbs (worker cb) (wrap_single planners) cw = Inr rs"
  shows "sublist
           [BuildSimulations c1 cbs (worker cb) (wrap_single planners) cw,
            SaveProfiler p ''building_simulation'']
           (events (run_simulation k planners) s)
     \<and> (save_profiler k p ''building_simulation'' = Inr () \<longrightarrow>
          sublist
            [BuildSimulations c1 cbs (worker cb) (wrap_single planners) cw,
             SaveProfiler p ''building_simulation'',
             LoggerInfo ''Running simulation...'',
             RunRunners rs cb c1 ''running_simulation'']
            (events (run_simulation k planners) s))"
proof (cases "truthy planners \<and> ''planner'' \<in> set (cfg_keys (conf s))")
  case True
  then have t: "truthy planners" and pk: "''planner'' \<in> set (cfg_keys (conf s))" by simp_all
  from assms t pk show ?thesis
    by (simp add: events_def run_unfold bnd_merge_planner_hit sublist_Cons_right
        split: sum.splits option.splits)
next
  case False
  with assms show ?thesis
    by (simp add: events_def run_unfold bnd_merge_planner_miss sublist_Cons_right
        split: sum.splits option.splits)
qed


text \<open>
  Claim C7. In every execution of \<^verbatim>\<open>run_simulation\<close>, whatever the collaborators
  return: from the call of \<^verbatim>\<open>run_runners\<close> on there is no construction call (context,
  callback worker, callbacks, runners); the session name \<^verbatim>\<open>running_simulation\<close> is
  carried by the \<^verbatim>\<open>run_runners\<close> call and by nothing else; and no profiling session is
  saved before \<^verbatim>\<open>build_simulations\<close> is called or from the call of \<^verbatim>\<open>run_runners\<close> on.
  When the build context has a profiler and \<^verbatim>\<open>build_simulations\<close> returns, the session
  \<^verbatim>\<open>building_simulation\<close> is saved directly after that call, and when the save returns,
  \<^verbatim>\<open>run_runners\<close> is called after it with the session name \<^verbatim>\<open>running_simulation\<close>.
\<close>

theorem run_simulation_profiling_order:
  "filter is_construction
      (dropWhile (\<lambda>e. \<not> is_execution e) (events (run_simulation k planners) s)) = []
   \<and> filter (names_session ''running_simulation'') (events (run_simulation k planners) s)
       = filter is_execution (events (run_simulation k planners) s)
   \<and> filter is_save
       (takeWhile (\<lambda>e. \<not> is_build e) (events (run_simulation k planners) s)) = []
   \<and> filter is_save
       (dropWhile (\<lambda>e. \<not> is_execution e) (events (run_simulation k planners) s)) = []
   \<and> (cfg_getattr ''seed'' (conf s) = Inr sd
      \<and> seed_everything k sd = Inr ()
      \<and> set_up_common_builder k (conf s) ''building_simulation'' = Inr cb
      \<and> build_callbacks_worker k (conf s) = Inr cw
      \<and> build_simulation_callbacks k (conf s) (output_dir cb) cw = Inr cbs
      \<and> profiler cb = Some p
      \<and> c1 = (if truthy planners \<and> ''planner'' \<in> set (cfg_keys (conf s))
               then \<lparr>items = filter (\<lambda>kv. fst kv \<noteq> ''planner'') (items (conf s)),
                     struct = True\<rparr>
               else conf s)
      \<and> build_simulations k c1 cbs (worker cb) (wrap_single planners) cw = Inr rs
      \<longrightarrow> sublist
            [BuildSimulations c1 cbs (worker cb) (wrap_single planners) cw,
             SaveProfiler p ''building_simulation'']
            (events (run_simulation k planners) s)
          \<and> (save_profiler k p ''building_simulation'' = Inr () \<longrightarrow>
               sublist
                 [BuildSimulations c1 cbs (worker cb) (wrap_single planners) cw,
                  SaveProfiler p ''building_simulation'',
                  LoggerInfo ''Running simulation...'',
                  RunRunners rs cb c1 ''running_simulation'']
                 (events (run_simulation k planners) s)))"
proof -
  obtain r s' where rs: "run_simulation k planners s = (r, s')"
    by (cases "run_simulation k planners s")
  have ev: "events (run_simulation k planners) s = drop (length (trace s)) (trace s')"
    by (simp add: events_def rs)
  note a = run_simulation_order [OF rs, folded ev]
  have b: "cfg_getattr ''seed'' (conf s) = Inr sd
      \<and> seed_everything k sd = Inr ()
      \<and> set_up_common_builder k (conf s) ''building_simulation'' = Inr cb
      \<and> build_callbacks_worker k (conf s) = Inr cw
      \<and> build_simulation_callbacks k (conf s) (output_dir cb) cw = Inr cbs
      \<and> profiler cb = Some p
      \<and> c1 = (if truthy planners \<and> ''planner'' \<in> set (cfg_keys (conf s))
               then \<lparr>items = filter (\<lambda>kv. fst kv \<noteq> ''planner'') (items (conf s)),
                     struct = True\<rparr>
               else conf s)
      \<and> build_simulations k c1 cbs (worker cb) (wrap_single planners) cw = Inr rs
      \<longrightarrow> sublist
            [BuildSimulations c1 cbs (worker cb) (wrap_single planners) cw,
             SaveProfiler p ''building_simulation'']
            (events (run_simulation k planners) s)
          \<and> (save_profiler k p ''building_simulation'' = Inr () \<longrightarrow>
               sublist
                 [BuildSimulations c1 cbs (worker cb) (wrap_single planners) cw,
                  SaveProfiler p ''building_simulation'',
                  LoggerInfo ''Running simulation...'',
                  RunRunners rs cb c1 ''running_simulation'']
                 (events (run_simulation k planners) s))"
    using run_simulation_save_window [of s sd k cb cw cbs p c1 planners rs] by blast
  from a b show ?thesis by (intro conjI) (elim conjE, assumption)+
qed

lemma example_profiler:
  "profiler example_builder = Some (Profiler 0)"
  "build_simulations example_collab c cbs w ps cw = Inr (Runners 0)"
  "save_profiler example_collab p n = Inr ()"
  by (simp_all add: example_builder_def example_collab_def)

theorem run_simulation_profiling_order_witness:
  "sublist
     [BuildSimulations (conf (example_state ''/local/exp1'' VNone ''/tmp'')) (Callbacks 0)
        (worker example_builder) NoPlanners (Worker 1),
      SaveProfiler (Profiler 0) ''building_simulation'',
      LoggerInfo ''Running simulation...'',
      RunRunners (Runners 0) example_builder
        (conf (example_state ''/local/exp1'' VNone ''/tmp'')) ''running_simulation'']
     (events (run_simulation example_collab NoPlanners)
        (example_state ''/local/exp1'' VNone ''/tmp''))"
proof -
  let ?s = "example_state ''/local/exp1'' VNone ''/tmp''"
  have c: "conf ?s = (if truthy NoPlanners \<and> ''planner'' \<in> set (cfg_keys (conf ?s))
               then \<lparr>items = filter (\<lambda>kv. fst kv \<noteq> ''planner'') (items (conf ?s)),
                     struct = True\<rparr>
               else conf ?s)" by simp
  have r: "cfg_getattr ''seed'' (conf ?s) = Inr (VInt 0)
      \<and> seed_everything example_collab (VInt 0) = Inr ()
      \<and> set_up_common_builder example_collab (conf ?s) ''building_simulation''
          = Inr example_builder
      \<and> build_callbacks_worker example_collab (conf ?s) = Inr (Worker 1)
      \<and> build_simulation_callbacks example_collab (conf ?s) (output_dir example_builder)
          (Worker 1) = Inr (Callbacks 0)
      \<and> profiler example_builder = Some (Profiler 0)
      \<and> conf ?s = (if truthy NoPlanners \<and> ''planner'' \<in> set (cfg_keys (conf ?s))
               then \<lparr>items = filter (\<lambda>kv. fst kv \<noteq> ''planner'') (items (conf ?s)),
                     struct = True\<rparr>
               else conf ?s)
      \<and> build_simulations example_collab (conf ?s) (Callbacks 0) (worker example_builder)
          (wrap_single NoPlanners) (Worker 1) = Inr (Runners 0)"
    using example_reach(1-5) example_profiler(1,2) c by blast
  note t = run_simulation_profiling_order
    [where k = example_collab and planners = NoPlanners and s = ?s and sd = "VInt 0"
       and cb = example_builder and cw = "Worker 1" and cbs = "Callbacks 0"
       and p = "Profiler 0" and ?c1.0 = "conf ?s" and rs = "Runners 0",
     THEN conjunct2, THEN conjunct2, THEN conjunct2, THEN conjunct2, THEN mp, OF r,
     THEN conjunct2, THEN mp, OF example_profiler(3)]
  from t show ?thesis by simp
qed

subsection \<open>The entry point\<close>


text \<open>
  Claim C1, as the code has it. The check of \<^verbatim>\<open>simulation_log_main_path\<close> is the
  assertion at the start of \<^verbatim>\<open>main\<close>: for every configuration in which the path is
  set to a value other than \<^verbatim>\<open>None\<close>, \<^verbatim>\<open>main\<close> fails with an \<^verbatim>\<open>AssertionError\<close> and
  leaves the state as it was, so that neither \<^verbatim>\<open>run_simulation\<close> nor any collaborator
  has been called.
\<close>

theorem main_rejects_preset_log_path:
  assumes "cfg_getattr ''simulation_log_main_path'' (conf s) = Inr v" and "v \<noteq> VNone"
  shows "main k s =
     (Inl (AssertionError
        ''Simulation_log_main_path must not be set when running simulation.''), s)"
  using assms by (simp add: main_def bnd_read_conf raise_def)

theorem main_rejects_preset_log_path_witness:
  "cfg_getattr ''simulation_log_main_path''
     (conf (example_state ''/local/exp1'' (VStr ''/logs'') ''/tmp'')) = Inr (VStr ''/logs'')
   \<and> VStr ''/logs'' \<noteq> VNone
   \<and> main example_collab (example_state ''/local/exp1'' (VStr ''/logs'') ''/tmp'') =
     (Inl (AssertionError
        ''Simulation_log_main_path must not be set when running simulation.''),
      example_state ''/local/exp1'' (VStr ''/logs'') ''/tmp'')"
proof -
  have a: "cfg_getattr ''simulation_log_main_path''
     (conf (example_state ''/local/exp1'' (VStr ''/logs'') ''/tmp'')) = Inr (VStr ''/logs'')"
    by (simp add: example_state_def example_cfg_def cfg_getattr_def)
  have b: "VStr ''/logs'' \<noteq> VNone" by simp
  from a b main_rejects_preset_log_path [OF a b, of example_collab] show ?thesis by blast
qed

lemma example_run:
  "run_simulation example_collab NoPlanners (example_state od lp wd) =
      (Inr (), (example_state od lp wd)\<lparr>trace :=
        [SeedEverything (VInt 0),
         SetUpCommonBuilder (example_cfg od lp) ''building_simulation'',
         BuildCallbacksWorker (example_cfg od lp),
         BuildSimulationCallbacks (example_cfg od lp) ''/out'' (Worker 1),
         BuildSimulations (example_cfg od lp) (Callbacks 0) (Worker 0) NoPlanners (Worker 1),
         SaveProfiler (Profiler 0) ''building_simulation'',
         LoggerInfo ''Running simulation...'',
         RunRunners (Runners 0) example_builder (example_cfg od lp) ''running_simulation'',
         LoggerInfo ''Finished running simulation!'']\<rparr>)"
proof -
  let ?s = "example_state od lp wd"
  have cs: "conf ?s = example_cfg od lp" and tr: "trace ?s = []"
    by (simp_all add: example_state_def)
  have miss: "\<not> (truthy NoPlanners \<and> ''planner'' \<in> set (cfg_keys (conf ?s)))" by simp
  have sd: "cfg_getattr ''seed'' (conf ?s) = Inr (VInt 0)" by (rule example_reach(1))
  have "run_simulation example_collab NoPlanners ?s =
      (Inr (), ?s\<lparr>trace := trace ?s @
        [SeedEverything (VInt 0),
         SetUpCommonBuilder (conf ?s) ''building_simulation'',
         BuildCallbacksWorker (conf ?s),
         BuildSimulationCallbacks (conf ?s) ''/out'' (Worker 1),
         BuildSimulations (conf ?s) (Callbacks 0) (Worker 0) NoPlanners (Worker 1),
         SaveProfiler (Profiler 0) ''building_simulation'',
         LoggerInfo ''Running simulation...'',
         RunRunners (Runners 0) example_builder (conf ?s) ''running_simulation'',
         LoggerInfo ''Finished running simulation!'']\<rparr>)"
    using sd miss
    by (simp add: run_unfold bnd_merge_planner_miss example_collab_def example_builder_def)
  then show ?thesis unfolding cs tr by simp
qed

text \<open>
  Claim C1, as stated, fails: \<^verbatim>\<open>run_simulation\<close> itself does not look at
  \<^verbatim>\<open>simulation_log_main_path\<close>. Called with a configuration in which the path is
  \<^verbatim>\<open>/logs\<close>, it calls every collaborator and returns normally.
\<close>

theorem run_simulation_accepts_preset_log_path:
  "cfg_getattr ''simulation_log_main_path''
     (conf (example_state ''/local/exp1'' (VStr ''/logs'') ''/tmp'')) = Inr (VStr ''/logs'')
   \<and> fst (run_simulation example_collab NoPlanners
            (example_state ''/local/exp1'' (VStr ''/logs'') ''/tmp'')) = Inr ()
   \<and> events (run_simulation example_collab NoPlanners)
        (example_state ''/local/exp1'' (VStr ''/logs'') ''/tmp'')
     = [SeedEverything (VInt 0),
        SetUpCommonBuilder (example_cfg ''/local/exp1'' (VStr ''/logs''))
          ''building_simulation'',
        BuildCallbacksWorker (example_cfg ''/local/exp1'' (VStr ''/logs'')),
        BuildSimulationCallbacks (example_cfg ''/local/exp1'' (VStr ''/logs'')) ''/out''
          (Worker 1),
        BuildSimulations (example_cfg ''/local/exp1'' (VStr ''/logs'')) (Callbacks 0)
          (Worker 0) NoPlanners (Worker 1),
        SaveProfiler (Profiler 0) ''building_simulation'',
        LoggerInfo ''Running simulation...'',
        RunRunners (Runners 0) example_builder (example_cfg ''/local/exp1'' (VStr ''/logs''))
          ''running_simulation'',
        LoggerInfo ''Finished running simulation!'']"
proof -
  let ?s = "example_state ''/local/exp1'' (VStr ''/logs'') ''/tmp''"
  have a: "cfg_getattr ''simulation_log_main_path'' (conf ?s) = Inr (VStr ''/logs'')"
    by (simp add: example_state_def example_cfg_def cfg_getattr_def)
  have tr: "trace ?s = []" by (simp add: example_state_def)
  have b: "fst (run_simulation example_collab NoPlanners ?s) = Inr ()"
    by (simp add: example_run)
  have c: "events (run_simulation example_collab NoPlanners) ?s
     = [SeedEverything (VInt 0),
        SetUpCommonBuilder (example_cfg ''/local/exp1'' (VStr ''/logs''))
          ''building_simulation'',
        BuildCallbacksWorker (example_cfg ''/local/exp1'' (VStr ''/logs'')),
        BuildSimulationCallbacks (example_cfg ''/local/exp1'' (VStr ''/logs'')) ''/out''
          (Worker 1),
        BuildSimulations (example_cfg ''/local/exp1'' (VStr ''/logs'')) (Callbacks 0)
          (Worker 0) NoPlanners (Worker 1),
        SaveProfiler (Profiler 0) ''building_simulation'',
        LoggerInfo ''Running simulation...'',
        RunRunners (Runners 0) example_builder (example_cfg ''/local/exp1'' (VStr ''/logs''))
          ''running_simulation'',
        LoggerInfo ''Finished running simulation!'']"
    by (simp add: events_def example_run tr)
  from a b c show ?thesis by blast
qed









end
